theory Spec2Isabelle
  imports Main
begin

section \<open>Values, exceptions and the Python primitives the module uses\<close>

text \<open>
  The module \<^verbatim>\<open>message/message.py\<close> (Python 2.7, by the package's \<^verbatim>\<open>setup.py\<close>) works
  on the values that \<^verbatim>\<open>json.loads\<close> produces. Numbers are modelled as integers; a dict
  is an association list with unique keys, in the order in which the dict iterates them.
\<close>

datatype json =
    JNull
  | JBool bool
  | JInt int
  | JStr string
  | JList "json list"
  | JObj "(string \<times> json) list"

text \<open>
  Every exception the code can raise is a value. \<open>KeyError\<close> carries the missing key,
  \<open>LookupError\<close> the message given to \<^verbatim>\<open>raise LookupError(...)\<close>, \<open>NameError\<close> the name
  that is not bound, \<open>AttributeError\<close> the attribute. \<open>JsonPathError\<close> is whatever the
  path library raises for a text it cannot parse, \<open>StorageError\<close> a failure of the
  object store.
\<close>

datatype error =
    KeyError json
  | TypeError
  | AttributeError string
  | NameError string
  | LookupError string
  | IndexError
  | JsonPathError string
  | StorageError string

definition bnd :: "error + 'a \<Rightarrow> ('a \<Rightarrow> error + 'b) \<Rightarrow> error + 'b" where
  "bnd m f = (case m of Inl e \<Rightarrow> Inl e | Inr x \<Rightarrow> f x)"

text \<open>
  \<^verbatim>\<open>except LookupError\<close> also catches \<^verbatim>\<open>KeyError\<close> and \<^verbatim>\<open>IndexError\<close>, its
  subclasses.
\<close>

fun is_LookupError :: "error \<Rightarrow> bool" where
  "is_LookupError (LookupError m) = True"
| "is_LookupError (KeyError k) = True"
| "is_LookupError IndexError = True"
| "is_LookupError e = False"

text \<open>
  \<^verbatim>\<open>x == y\<close> on these values: \<^verbatim>\<open>True\<close> and \<^verbatim>\<open>False\<close> are the numbers 1 and 0, lists
  are compared element by element, dicts key by key whatever their order.
\<close>

fun py_eq :: "json \<Rightarrow> json \<Rightarrow> bool" where
  "py_eq JNull JNull = True"
| "py_eq (JBool a) (JBool b) = (a = b)"
| "py_eq (JBool a) (JInt i) = (i = (if a then 1 else 0))"
| "py_eq (JInt i) (JBool a) = (i = (if a then 1 else 0))"
| "py_eq (JInt i) (JInt j) = (i = j)"
| "py_eq (JStr s) (JStr t) = (s = t)"
| "py_eq (JList xs) (JList ys) = list_all2 py_eq xs ys"
| "py_eq (JObj a) (JObj b) =
     (length a = length b \<and>
      list_all (\<lambda>kv. case map_of b (fst kv) of None \<Rightarrow> False
                                           | Some w \<Rightarrow> py_eq (snd kv) w) a)"
| "py_eq x y = False"

text \<open>Truth value of a value used as a condition.\<close>

fun truthy :: "json \<Rightarrow> bool" where
  "truthy JNull = False"
| "truthy (JBool b) = b"
| "truthy (JInt i) = (i \<noteq> 0)"
| "truthy (JStr s) = (s \<noteq> [])"
| "truthy (JList xs) = (xs \<noteq> [])"
| "truthy (JObj kvs) = (kvs \<noteq> [])"

text \<open>\<^verbatim>\<open>x['k']\<close> with a text key: only a dict can be subscripted by text.\<close>

fun get_item :: "json \<Rightarrow> string \<Rightarrow> error + json" where
  "get_item (JObj kvs) k =
     (case map_of kvs k of None \<Rightarrow> Inl (KeyError (JStr k)) | Some v \<Rightarrow> Inr v)"
| "get_item v k = Inl TypeError"

text \<open>\<^verbatim>\<open>d['k'] = v\<close> on a dict keeps the position of an existing key and appends a new one.\<close>

fun dict_set :: "(string \<times> json) list \<Rightarrow> string \<Rightarrow> json \<Rightarrow> (string \<times> json) list" where
  "dict_set [] k v = [(k, v)]"
| "dict_set ((k', v') # kvs) k v =
     (if k' = k then (k, v) # kvs else (k', v') # dict_set kvs k v)"

fun set_item :: "json \<Rightarrow> string \<Rightarrow> json \<Rightarrow> error + json" where
  "set_item (JObj kvs) k v = Inr (JObj (dict_set kvs k v))"
| "set_item x k v = Inl TypeError"

text \<open>\<^verbatim>\<open>del d['k']\<close>.\<close>

fun del_item :: "json \<Rightarrow> string \<Rightarrow> error + json" where
  "del_item (JObj kvs) k =
     (if k \<in> fst ` set kvs then Inr (JObj (filter (\<lambda>kv. fst kv \<noteq> k) kvs))
      else Inl (KeyError (JStr k)))"
| "del_item x k = Inl TypeError"

text \<open>
  \<^verbatim>\<open>x in c\<close>: key membership for a dict (a list or a dict is not hashable), element
  membership for a list, substring test for a text; anything else is not iterable.
\<close>

fun is_substring :: "string \<Rightarrow> string \<Rightarrow> bool" where
  "is_substring xs [] = (xs = [])"
| "is_substring xs (y # ys) = (take (length xs) (y # ys) = xs \<or> is_substring xs ys)"

fun py_in_val :: "json \<Rightarrow> json \<Rightarrow> error + bool" where
  "py_in_val x (JObj kvs) =
     (case x of
        JStr k \<Rightarrow> Inr (k \<in> fst ` set kvs)
      | JList l \<Rightarrow> Inl TypeError
      | JObj d \<Rightarrow> Inl TypeError
      | _ \<Rightarrow> Inr False)"
| "py_in_val x (JList xs) = Inr (list_ex (py_eq x) xs)"
| "py_in_val x (JStr s) = (case x of JStr k \<Rightarrow> Inr (is_substring k s) | _ \<Rightarrow> Inl TypeError)"
| "py_in_val x c = Inl TypeError"

definition py_in :: "string \<Rightarrow> json \<Rightarrow> error + bool" where
  "py_in k c = py_in_val (JStr k) c"

text \<open>
  \<^verbatim>\<open>c[x]\<close> with a key that is a value: a dict holds text keys only; a list or a text is
  indexed by a number, negative numbers counting from the end.
\<close>

definition py_index :: "'a list \<Rightarrow> int \<Rightarrow> error + 'a" where
  "py_index xs i =
     (if 0 \<le> i \<and> nat i < length xs then Inr (xs ! nat i)
      else if i < 0 \<and> nat (- i) \<le> length xs then Inr (xs ! (length xs - nat (- i)))
      else Inl IndexError)"

fun get_item_val :: "json \<Rightarrow> json \<Rightarrow> error + json" where
  "get_item_val c (JStr k) = get_item c k"
| "get_item_val (JObj kvs) (JList l) = Inl TypeError"
| "get_item_val (JObj kvs) (JObj d) = Inl TypeError"
| "get_item_val (JObj kvs) x = Inl (KeyError x)"
| "get_item_val (JList xs) (JInt i) = py_index xs i"
| "get_item_val (JList xs) (JBool b) = py_index xs (if b then 1 else 0)"
| "get_item_val (JStr s) (JInt i) = bnd (py_index s i) (\<lambda>c. Inr (JStr [c]))"
| "get_item_val (JStr s) (JBool b) =
     bnd (py_index s (if b then 1 else 0)) (\<lambda>c. Inr (JStr [c]))"
| "get_item_val c x = Inl TypeError"

text \<open>\<^verbatim>\<open>for x in v\<close>: the elements of a list, the keys of a dict, the characters of a text.\<close>

fun py_iter :: "json \<Rightarrow> error + json list" where
  "py_iter (JList xs) = Inr xs"
| "py_iter (JObj kvs) = Inr (map (\<lambda>kv. JStr (fst kv)) kvs)"
| "py_iter (JStr s) = Inr (map (\<lambda>c. JStr [c]) s)"
| "py_iter v = Inl TypeError"

text \<open>
  \<^verbatim>\<open>x.copy()\<close>: of these values only a dict has the method. The copy is shallow, and
  the values of the model are immutable, so the copy is the dict itself.
\<close>

fun py_copy :: "json \<Rightarrow> error + json" where
  "py_copy (JObj kvs) = Inr (JObj kvs)"
| "py_copy v = Inl (AttributeError ''copy'')"

text \<open>\<^verbatim>\<open>'text' + x\<close>: concatenation needs a text on the right.\<close>

fun str_add :: "string \<Rightarrow> json \<Rightarrow> error + string" where
  "str_add s (JStr t) = Inr (s @ t)"
| "str_add s v = Inl TypeError"

text \<open>
  A bare name in a method body is looked up in the function's locals, then in the
  module's globals, then in the builtins; the attributes of the enclosing class are not
  in scope. Inside \<^verbatim>\<open>class message\<close> an identifier \<^verbatim>\<open>__x\<close> that does not end in two
  underscores is compiled as \<^verbatim>\<open>_message__x\<close>. The module binds exactly the names of its
  import statements and of its class.
\<close>

definition module_globals :: "string list" where
  "module_globals =
     [''json'', ''re'', ''sys'', ''datetime'', ''date'', ''time'', ''uuid'', ''boto3'',
      ''jsonpath'', ''parse'', ''message'']"

definition global_name :: "string \<Rightarrow> (error + 'a) \<Rightarrow> error + 'a" where
  "global_name n k = (if n \<in> set module_globals then k else Inl (NameError n))"

section \<open>The path library\<close>

text \<open>
  \<^verbatim>\<open>parse(p).find(event)\<close> of \<^verbatim>\<open>jsonpath_ng\<close> is a parameter of the model: a function from
  the path text and the document to the values of the matched nodes, in the order the
  library gives them, or to the exception it raises.
\<close>

type_synonym pathquery = "string \<Rightarrow> json \<Rightarrow> error + json list"

text \<open>
  For concrete evaluations, the fragment \<^verbatim>\<open>$\<close>, \<^verbatim>\<open>$.f\<close>, \<^verbatim>\<open>$.f.g\<close>, ... of the path
  language: the root followed by child steps through dict fields. A field that is absent,
  or a step into a value that is not a dict, matches nothing. Any other text is rejected.
\<close>

fun split_dots :: "string \<Rightarrow> string list" where
  "split_dots [] = [[]]"
| "split_dots (c # cs) =
     (if c = CHR ''.'' then [] # split_dots cs
      else (case split_dots cs of [] \<Rightarrow> [[c]] | w # ws \<Rightarrow> (c # w) # ws))"

definition is_ident_char :: "char \<Rightarrow> bool" where
  "is_ident_char c =
     (c = CHR ''_''
      \<or> (of_char c :: nat) \<in> {of_char CHR ''a'' .. of_char CHR ''z''}
      \<or> (of_char c :: nat) \<in> {of_char CHR ''A'' .. of_char CHR ''Z''}
      \<or> (of_char c :: nat) \<in> {of_char CHR ''0'' .. of_char CHR ''9''})"

definition is_ident :: "string \<Rightarrow> bool" where
  "is_ident s = (s \<noteq> [] \<and> list_all is_ident_char s)"

fun child_fields :: "string list \<Rightarrow> json \<Rightarrow> json list" where
  "child_fields [] v = [v]"
| "child_fields (f # fs) (JObj kvs) =
     (case map_of kvs f of None \<Rightarrow> [] | Some v \<Rightarrow> child_fields fs v)"
| "child_fields (f # fs) v = []"

definition jsonpath_fields :: pathquery where
  "jsonpath_fields p ev =
     (case split_dots p of
        [] \<Rightarrow> Inl (JsonPathError p)
      | r # fs \<Rightarrow>
          if r = ''$'' \<and> list_all is_ident fs then Inr (child_fields fs ev)
          else Inl (JsonPathError p))"

section \<open>Template resolution\<close>

subsection \<open>The three regular expressions\<close>

text \<open>
  \<^verbatim>\<open>re.search\<close> without flags: \<^verbatim>\<open>^\<close> matches at the start of the text only, \<^verbatim>\<open>.\<close>
  matches any character but a line feed, and \<^verbatim>\<open>$\<close> matches at the end of the text or
  just before a line feed that ends it. So \<^verbatim>\<open>^{{(.*)}}$\<close> finds a match exactly when the
  text, with one final line feed taken off, has at least four characters, opens with the
  two braces, closes with the two braces and holds no line feed; \<^verbatim>\<open>^{\[(.*)\]}$\<close>
  likewise with the brace and bracket pair.
\<close>

definition strip_final_newline :: "string \<Rightarrow> string" where
  "strip_final_newline s = (if s \<noteq> [] \<and> last s = CHR 0x0A then butlast s else s)"

definition framed :: "string \<Rightarrow> string \<Rightarrow> string \<Rightarrow> bool" where
  "framed opening closing s =
     (let t = strip_final_newline s
      in 4 \<le> length t \<and> take 2 t = opening \<and> drop (length t - 2) t = closing
         \<and> CHR 0x0A \<notin> set t)"

definition search_valueRegex :: "string \<Rightarrow> bool" where
  "search_valueRegex s = framed ''{{'' ''}}'' s"

definition search_arrayRegex :: "string \<Rightarrow> bool" where
  "search_arrayRegex s = framed ''{['' '']}'' s"

text \<open>
  \<^verbatim>\<open>{([^}]+)}\<close> matches at the leftmost opening brace that is followed by at least one
  character other than a closing brace and then, after the longest run of such
  characters, by a closing brace. The result is \<^verbatim>\<open>matches.group(0)\<close>, or \<open>None\<close> when
  there is no match.
\<close>

fun search_templateRegex :: "string \<Rightarrow> string option" where
  "search_templateRegex [] = None"
| "search_templateRegex (c # cs) =
     (if c = CHR ''{'' \<and> takeWhile (\<lambda>x. x \<noteq> CHR ''}'') cs \<noteq> []
         \<and> dropWhile (\<lambda>x. x \<noteq> CHR ''}'') cs \<noteq> []
      then Some (c # takeWhile (\<lambda>x. x \<noteq> CHR ''}'') cs @ ''}'')
      else search_templateRegex cs)"

subsection \<open>Text operations\<close>

text \<open>
  \<^verbatim>\<open>str[2:(len(str)-2)]\<close>; for a text shorter than two characters the stop index is
  negative and the slice is empty, as it is here.
\<close>

definition slice_2 :: "string \<Rightarrow> string" where
  "slice_2 s = drop 2 (take (length s - 2) s)"

text \<open>\<^verbatim>\<open>.lstrip('{').rstrip('}')\<close>\<close>

definition strip_braces :: "string \<Rightarrow> string" where
  "strip_braces s =
     rev (dropWhile (\<lambda>x. x = CHR ''}'') (rev (dropWhile (\<lambda>x. x = CHR ''{'') s)))"

text \<open>
  \<^verbatim>\<open>s.replace(old, new)\<close> replaces every occurrence of \<open>old\<close>, scanning from the left
  and continuing after each replaced occurrence. (For an empty \<open>old\<close> Python puts
  \<open>new\<close> before every character and at the end.)
\<close>

function replace_all :: "string \<Rightarrow> string \<Rightarrow> string \<Rightarrow> string" where
  "replace_all old new [] = (if old = [] then new else [])"
| "replace_all old new (c # cs) =
     (if old = [] then new @ c # replace_all old new cs
      else if take (length old) (c # cs) = old
      then new @ replace_all old new (drop (length old) (c # cs))
      else c # replace_all old new cs)"
  by pat_completeness auto
termination
  by (relation "measure (\<lambda>(old, new, s). length s)") auto

text \<open>The second argument of \<^verbatim>\<open>replace\<close> must be a text; no coercion takes place.\<close>

fun str_replace :: "string \<Rightarrow> string \<Rightarrow> json \<Rightarrow> error + json" where
  "str_replace s old (JStr new) = Inr (JStr (replace_all old new s))"
| "str_replace s old v = Inl TypeError"

subsection \<open>\<^verbatim>\<open>__resolvePathStr\<close>\<close>

text \<open>
  Each of the three \<^verbatim>\<open>if\<close> blocks either returns a value (\<open>Some\<close>), falls through to
  the next statement (\<open>None\<close>), or raises.
\<close>

definition value_form :: "pathquery \<Rightarrow> json \<Rightarrow> string \<Rightarrow> error + json option" where
  "value_form jp event str =
     (if search_valueRegex str
      then bnd (jp (slice_2 str) event)
             (\<lambda>matchData. case matchData of [] \<Rightarrow> Inr None | v # vs \<Rightarrow> Inr (Some v))
      else Inr None)"

definition array_form :: "pathquery \<Rightarrow> json \<Rightarrow> string \<Rightarrow> error + json option" where
  "array_form jp event str =
     (if search_arrayRegex str
      then bnd (jp (slice_2 str) event)
             (\<lambda>matchData. if length matchData > 0 then Inr (Some (JList matchData))
                           else Inr None)
      else Inr None)"

definition template_form :: "pathquery \<Rightarrow> json \<Rightarrow> string \<Rightarrow> error + json option" where
  "template_form jp event str =
     (case search_templateRegex str of
        None \<Rightarrow> Inr None
      | Some group0 \<Rightarrow>
          bnd (jp (strip_braces group0) event)
            (\<lambda>matchData. case matchData of
               [] \<Rightarrow> Inr None
             | v # vs \<Rightarrow> bnd (str_replace str group0 v) (\<lambda>r. Inr (Some r))))"

definition resolvePathStr :: "pathquery \<Rightarrow> json \<Rightarrow> string \<Rightarrow> error + json" where
  "resolvePathStr jp event str =
     bnd (value_form jp event str) (\<lambda>r1. case r1 of
       Some v \<Rightarrow> Inr v
     | None \<Rightarrow> bnd (array_form jp event str) (\<lambda>r2. case r2 of
         Some v \<Rightarrow> Inr v
       | None \<Rightarrow> bnd (template_form jp event str) (\<lambda>r3. case r3 of
           Some v \<Rightarrow> Inr v
         | None \<Rightarrow> Inl (LookupError (''Could not resolve path '' @ str)))))"

text \<open>The argument of the callers is a value of the config; \<^verbatim>\<open>re.search\<close> needs a text.\<close>

fun resolvePathStr_of :: "pathquery \<Rightarrow> json \<Rightarrow> json \<Rightarrow> error + json" where
  "resolvePathStr_of jp event (JStr str) = resolvePathStr jp event str"
| "resolvePathStr_of jp event v = Inl TypeError"

section \<open>Finding the current task in an execution history\<close>

text \<open>
  \<^verbatim>\<open>eventsById\<close> is a dict created by the code; its keys are values. A list or a dict
  cannot be a key.
\<close>

fun hashable :: "json \<Rightarrow> bool" where
  "hashable (JList l) = False"
| "hashable (JObj d) = False"
| "hashable v = True"

fun table_get :: "(json \<times> json) list \<Rightarrow> json \<Rightarrow> error + json" where
  "table_get [] k = (if hashable k then Inl (KeyError k) else Inl TypeError)"
| "table_get ((k', v) # kvs) k =
     (if \<not> hashable k then Inl TypeError
      else if py_eq k' k then Inr v else table_get kvs k)"

fun table_put :: "(json \<times> json) list \<Rightarrow> json \<Rightarrow> json \<Rightarrow> (json \<times> json) list" where
  "table_put [] k v = [(k, v)]"
| "table_put ((k', v') # kvs) k v =
     (if py_eq k' k then (k', v) # kvs else (k', v') # table_put kvs k v)"

text \<open>
  The first loop, lines 38 and 39: \<^verbatim>\<open>eventsById['event']['id'] = event\<close> reads the entry
  under the text \<^verbatim>\<open>'event'\<close> and assigns the item \<^verbatim>\<open>'id'\<close> of what it finds there.
\<close>

fun build_eventsById :: "(json \<times> json) list \<Rightarrow> json list \<Rightarrow> error + (json \<times> json) list" where
  "build_eventsById eventsById [] = Inr eventsById"
| "build_eventsById eventsById (event # events) =
     bnd (table_get eventsById (JStr ''event'')) (\<lambda>entry.
     bnd (set_item entry ''id'' event) (\<lambda>entry'.
     build_eventsById (table_put eventsById (JStr ''event'') entry') events))"

text \<open>The condition of line 44 to 48, with the short circuits of \<^verbatim>\<open>and\<close> and \<^verbatim>\<open>or\<close>.\<close>

definition scheduled_for :: "string \<Rightarrow> string \<Rightarrow> json \<Rightarrow> json \<Rightarrow> error + bool" where
  "scheduled_for kind details arn step =
     bnd (get_item step ''type'') (\<lambda>t.
       if py_eq t (JStr kind)
       then bnd (get_item step details) (\<lambda>d.
            bnd (get_item d ''resource'') (\<lambda>r. Inr (py_eq r arn)))
       else Inr False)"

definition resource_scheduled :: "json \<Rightarrow> json \<Rightarrow> error + bool" where
  "resource_scheduled arn step =
     (if \<not> truthy arn then Inr False
      else bnd (scheduled_for ''LambdaFunctionScheduled''
                  ''lambdaFunctionScheduledEventDetails'' arn step) (\<lambda>a.
           if a then Inr True
           else scheduled_for ''ActivityScheduled'' ''activityScheduledEventDetails'' arn step))"

definition entered_name :: "json \<Rightarrow> error + json" where
  "entered_name ev =
     bnd (get_item ev ''stateEnteredEventDetails'') (\<lambda>d. get_item d ''name'')"

text \<open>The second loop, lines 41 to 50; \<open>Some\<close> is a \<^verbatim>\<open>return\<close>, \<open>None\<close> the end of the loop.\<close>

fun scan_events :: "(json \<times> json) list \<Rightarrow> json \<Rightarrow> json list \<Rightarrow> error + json option" where
  "scan_events eventsById arn [] = Inr None"
| "scan_events eventsById arn (step # steps) =
     bnd (resource_scheduled arn step) (\<lambda>hit.
       if hit
       then bnd (get_item step ''previousEventId'') (\<lambda>pid.
            bnd (table_get eventsById pid) (\<lambda>prev.
            bnd (entered_name prev) (\<lambda>n. Inr (Some n))))
       else bnd (get_item step ''type'') (\<lambda>t.
            if py_eq t (JStr ''TaskStateEntered'')
            then bnd (entered_name step) (\<lambda>n. Inr (Some n))
            else scan_events eventsById arn steps))"

definition getTaskNameFromExecutionHistory :: "json \<Rightarrow> json \<Rightarrow> error + json" where
  "getTaskNameFromExecutionHistory executionHistory arn =
     bnd (get_item executionHistory ''events'') (\<lambda>evs.
     bnd (py_iter evs) (\<lambda>events.
     bnd (build_eventsById [] events) (\<lambda>eventsById.
     bnd (get_item executionHistory ''events'') (\<lambda>evs'.
     bnd (py_iter evs') (\<lambda>steps.
     bnd (scan_events eventsById arn steps) (\<lambda>found.
       case found of
         Some name \<Rightarrow> Inr name
       | None \<Rightarrow> bnd (str_add ''No task found for '' arn) (\<lambda>m. Inl (LookupError m))))))))"

text \<open>
  \<^verbatim>\<open>__getSfnExecutionArnByName\<close>: the arguments are evaluated (\<^verbatim>\<open>replace\<close> is a method
  of a text), then \<^verbatim>\<open>join\<close> is called with two arguments, which it does not take.
\<close>

fun getSfnExecutionArnByName :: "json \<Rightarrow> json \<Rightarrow> error + json" where
  "getSfnExecutionArnByName (JStr stateMachineArn) executionName = Inl TypeError"
| "getSfnExecutionArnByName v executionName = Inl (AttributeError ''replace'')"

text \<open>
  \<^verbatim>\<open>__getCurrentSfnTask\<close>. The history query of the orchestrator is the parameter
  \<open>history\<close>. The body has no \<^verbatim>\<open>return\<close>: its value is \<^verbatim>\<open>None\<close>.
\<close>

definition getCurrentSfnTask ::
  "(json \<Rightarrow> error + json) \<Rightarrow> json \<Rightarrow> json \<Rightarrow> json \<Rightarrow> error + json" where
  "getCurrentSfnTask history stateMachineArn executionName arn =
     global_name ''_message__getSfnExecutionArnByName''
       (bnd (getSfnExecutionArnByName stateMachineArn executionName) (\<lambda>executionArn.
        global_name ''client''
          (bnd (history executionArn) (\<lambda>executionHistory.
           global_name ''_message__getTaskNameFromExecutionHistory''
             (bnd (getTaskNameFromExecutionHistory executionHistory arn) (\<lambda>name.
              Inr JNull))))))"

section \<open>Locating the task's config\<close>

definition getConfig :: "json \<Rightarrow> json \<Rightarrow> error + json" where
  "getConfig event taskName =
     bnd (py_in ''workflow_config'' event) (\<lambda>has.
     bnd (if has then bnd (get_item event ''workflow_config'') (py_in_val taskName)
          else Inr False) (\<lambda>configured.
       if configured
       then bnd (get_item event ''workflow_config'') (\<lambda>wc. get_item_val wc taskName)
       else Inr (JObj [])))"

definition loadLocalConfig :: "json \<Rightarrow> error + json" where
  "loadLocalConfig event =
     global_name ''_message__getConfig''
       (bnd (get_item event ''cumulus_meta'') (\<lambda>meta.
        bnd (get_item meta ''task'') (\<lambda>task. getConfig event task)))"

definition loadStepFunctionConfig ::
  "(json \<Rightarrow> error + json) \<Rightarrow> json \<Rightarrow> json \<Rightarrow> error + json" where
  "loadStepFunctionConfig history event context =
     bnd (get_item event ''cumulus_meta'') (\<lambda>meta.
     bnd (py_in ''invokedFunctionArn'' context) (\<lambda>invoked.
     bnd (if invoked then get_item context ''invokedFunctionArn''
          else get_item context ''activityArn'') (\<lambda>arn.
     bnd (global_name ''_message__getCurrentSfnTask''
            (bnd (get_item meta ''state_machine'') (\<lambda>sm.
             bnd (get_item meta ''execution_name'') (\<lambda>en.
             getCurrentSfnTask history sm en arn)))) (\<lambda>taskName.
       if taskName \<noteq> JNull
       then global_name ''_message__getConfig'' (getConfig event taskName)
       else Inr JNull))))"

definition loadConfig :: "(json \<Rightarrow> error + json) \<Rightarrow> json \<Rightarrow> json \<Rightarrow> error + json" where
  "loadConfig history event context =
     bnd (get_item event ''cumulus_meta'') (\<lambda>meta.
     bnd (get_item meta ''message_source'') (\<lambda>source.
       if source = JNull then Inl (LookupError ''cumulus_meta requires a message_source'')
       else if py_eq source (JStr ''local'')
       then global_name ''_message__loadLocalConfig'' (loadLocalConfig event)
       else if py_eq source (JStr ''sfn'')
       then global_name ''_message__loadStepFunctionConfig''
              (loadStepFunctionConfig history event context)
       else bnd (str_add ''Unknown event source: '' source) (\<lambda>m. Inl (LookupError m))))"

section \<open>Building the task's envelope\<close>

text \<open>
  The values of \<^verbatim>\<open>json.loads\<close> have methods but no attribute \<^verbatim>\<open>payload\<close>, and none of
  them accepts a new attribute: reading or assigning \<^verbatim>\<open>x.payload\<close> raises.
\<close>

definition get_payload_attr :: "json \<Rightarrow> error + json" where
  "get_payload_attr x = Inl (AttributeError ''payload'')"

definition set_payload_attr :: "json \<Rightarrow> json \<Rightarrow> error + json" where
  "set_payload_attr x v = Inl (AttributeError ''payload'')"

text \<open>
  \<^verbatim>\<open>__resolveConfigTemplates\<close>. The name called on line 229 is \<^verbatim>\<open>__\<close>, which nothing in
  the module or the builtins binds.
\<close>

definition resolveConfigTemplates :: "json \<Rightarrow> json \<Rightarrow> error + json" where
  "resolveConfigTemplates event config =
     bnd (py_copy config) (\<lambda>taskConfig.
     bnd (del_item taskConfig ''cumulus_message'') (\<lambda>taskConfig'.
     Inl (NameError ''__'')))"

definition resolveInput :: "pathquery \<Rightarrow> json \<Rightarrow> json \<Rightarrow> error + json" where
  "resolveInput jp event config =
     bnd (py_in ''cumulus_message'' config) (\<lambda>has.
     bnd (if has then bnd (get_item config ''cumulus_message'') (py_in ''input'')
          else Inr False) (\<lambda>templated.
       if templated
       then bnd (get_item config ''cumulus_message'') (\<lambda>mc.
            bnd (get_item mc ''input'') (\<lambda>inputPath.
            global_name ''_message__resolvePathStr'' (resolvePathStr_of jp event inputPath)))
       else get_payload_attr event))"

definition loadNestedEvent ::
  "pathquery \<Rightarrow> (json \<Rightarrow> error + json) \<Rightarrow> json \<Rightarrow> json \<Rightarrow> error + json" where
  "loadNestedEvent jp history event context =
     global_name ''_message__loadConfig''
       (bnd (loadConfig history event context) (\<lambda>config.
        global_name ''_message__resolveConfigTemplates''
          (bnd (resolveConfigTemplates event config) (\<lambda>finalConfig.
           global_name ''_message__resolveInput''
             (bnd (resolveInput jp event config) (\<lambda>finalPayload.
              bnd (get_item config ''cumulus_message'') (\<lambda>messageConfig.
              Inr (JObj [(''input'', finalPayload), (''config'', finalConfig),
                         (''messageConfig'', messageConfig)]))))))))"

section \<open>Assembling the output message\<close>

text \<open>
  \<^verbatim>\<open>parse(destJsonPath).update(result, value)\<close> of the path library is the parameter
  \<open>upd\<close>: from the path text, the document and the value to the updated document.
\<close>

type_synonym pathupdate = "string \<Rightarrow> json \<Rightarrow> json \<Rightarrow> error + json"

text \<open>\<^verbatim>\<open>destPath[2:(len(destPath)-2)]\<close>: a text or a list can be sliced.\<close>

fun py_slice_2 :: "json \<Rightarrow> error + json" where
  "py_slice_2 (JStr s) = Inr (JStr (slice_2 s))"
| "py_slice_2 (JList xs) = Inr (JList (drop 2 (take (length xs - 2) xs)))"
| "py_slice_2 v = Inl TypeError"

fun update_at :: "pathupdate \<Rightarrow> json \<Rightarrow> json \<Rightarrow> json \<Rightarrow> error + json" where
  "update_at upd (JStr destJsonPath) result v = upd destJsonPath result v"
| "update_at upd p result v = Inl TypeError"

text \<open>The loop of lines 279 to 284 over \<^verbatim>\<open>outputs\<close>, threading \<^verbatim>\<open>result\<close>.\<close>

fun assign_each :: "pathquery \<Rightarrow> pathupdate \<Rightarrow> json \<Rightarrow> json \<Rightarrow> json list \<Rightarrow> error + json" where
  "assign_each jp upd nestedResponse result [] = Inr result"
| "assign_each jp upd nestedResponse result (output # outputs) =
     bnd (get_item output ''source'') (\<lambda>sourcePath.
     bnd (get_item output ''destination'') (\<lambda>destPath.
     bnd (py_slice_2 destPath) (\<lambda>destJsonPath.
     bnd (global_name ''_message__resolvePathStr''
            (resolvePathStr_of jp nestedResponse sourcePath)) (\<lambda>v.
     bnd (update_at upd destJsonPath result v) (\<lambda>result'.
     assign_each jp upd nestedResponse result' outputs)))))"

definition assignOutputs ::
  "pathquery \<Rightarrow> pathupdate \<Rightarrow> json \<Rightarrow> json \<Rightarrow> json \<Rightarrow> error + json" where
  "assignOutputs jp upd nestedResponse event messageConfig =
     bnd (py_copy event) (\<lambda>result.
     bnd (if messageConfig \<noteq> JNull then py_in ''outputs'' messageConfig
          else Inr False) (\<lambda>mapped.
       if mapped
       then bnd (get_item messageConfig ''outputs'') (\<lambda>outputs.
            bnd (set_payload_attr result (JObj [])) (\<lambda>result'.
            bnd (py_iter outputs) (\<lambda>os.
            assign_each jp upd nestedResponse result' os)))
       else set_item result ''payload'' nestedResponse))"

section \<open>Remote payloads\<close>

text \<open>
  \<^verbatim>\<open>loadRemoteEvent\<close>. The object store's \<^verbatim>\<open>get\<close> is the parameter \<open>s3_get\<close>: from
  bucket and key to the body that \<^verbatim>\<open>data['Body'].read()\<close> gives, \<open>None\<close> for a
  response that is \<^verbatim>\<open>None\<close>, or to the exception of the store.
\<close>

definition loadRemoteEvent ::
  "(json \<Rightarrow> json \<Rightarrow> error + string option) \<Rightarrow> json \<Rightarrow> error + json" where
  "loadRemoteEvent s3_get event =
     bnd (py_in ''replace'' event) (\<lambda>has.
       if has
       then bnd (get_item event ''replace'') (\<lambda>r.
            bnd (get_item r ''Bucket'') (\<lambda>bucket.
            bnd (get_item event ''replace'') (\<lambda>r'.
            bnd (get_item r' ''Key'') (\<lambda>key.
            bnd (s3_get bucket key) (\<lambda>data.
              case data of Some body \<Rightarrow> Inr (JStr body) | None \<Rightarrow> Inr event)))))
       else Inr event)"

text \<open>
  \<^verbatim>\<open>storeRemoteResponse\<close>. \<^verbatim>\<open>json.dumps\<close> is the parameter \<open>dumps\<close>, the text of
  \<^verbatim>\<open>uuid.uuid4()\<close> the parameter \<open>uuid\<close>, \<^verbatim>\<open>s3.put_object\<close> the parameter \<open>s3_put\<close>.
  \<^verbatim>\<open>dict.update\<close> returns \<^verbatim>\<open>None\<close>, so that is the value of \<^verbatim>\<open>s3Params\<close>; its
  argument mentions \<^verbatim>\<open>timedelta\<close>, which the module does not import. A call
  \<^verbatim>\<open>f(**x)\<close> needs a mapping. Creating the client (\<^verbatim>\<open>boto3.client\<close>, and
  \<^verbatim>\<open>boto3.resource\<close> above) is taken to succeed.
\<close>

definition MAX_NON_S3_PAYLOAD_SIZE :: nat where
  "MAX_NON_S3_PAYLOAD_SIZE = 10000"

fun put_object :: "(json \<Rightarrow> error + unit) \<Rightarrow> json \<Rightarrow> error + unit" where
  "put_object s3_put (JObj params) = s3_put (JObj params)"
| "put_object s3_put v = Inl TypeError"

definition storeRemoteResponse ::
  "(json \<Rightarrow> string) \<Rightarrow> string \<Rightarrow> (json \<Rightarrow> error + unit) \<Rightarrow> json \<Rightarrow> error + json" where
  "storeRemoteResponse dumps uuid s3_put event =
     (let jsonData = dumps event;
          roughDataSize = (if event \<noteq> JNull then length jsonData else 0)
      in if roughDataSize < MAX_NON_S3_PAYLOAD_SIZE then Inr event
         else bnd (get_item event ''ingest_meta'') (\<lambda>ingest.
              bnd (get_item ingest ''message_bucket'') (\<lambda>bucket.
              let s3Location = JObj [(''Bucket'', bucket), (''Key'', JStr (''events/'' @ uuid))]
              in bnd (global_name ''timedelta'' (Inr JNull)) (\<lambda>s3Params.
                 bnd (put_object s3_put s3Params) (\<lambda>u.
                 bnd (get_item event ''cumulus_meta'') (\<lambda>meta.
                 Inr (JObj [(''cumulus_meta'', meta), (''replace'', s3Location)])))))))"

definition createNextEvent ::
  "pathquery \<Rightarrow> pathupdate \<Rightarrow> (json \<Rightarrow> string) \<Rightarrow> string \<Rightarrow> (json \<Rightarrow> error + unit) \<Rightarrow>
     json \<Rightarrow> json \<Rightarrow> json \<Rightarrow> error + json" where
  "createNextEvent jp upd dumps uuid s3_put nestedResponse event messageConfig =
     global_name ''_message__assignOutputs''
       (bnd (assignOutputs jp upd nestedResponse event messageConfig) (\<lambda>result.
        bnd (set_item result ''exception'' (JStr ''None'')) (\<lambda>result'.
        bnd (del_item result' ''replace'') (\<lambda>result''.
        global_name ''storeRemoteResponse''
          (storeRemoteResponse dumps uuid s3_put result'')))))"

section \<open>The serialiser and the inputs used in concrete evaluations\<close>

text \<open>
  \<^verbatim>\<open>json.dumps\<close> with its default settings on the values above: items separated by a
  comma and a space, keys from values by a colon and a space, every character outside the
  printable ASCII range escaped, so that the text has as many bytes as characters.
\<close>

definition digit_char :: "nat \<Rightarrow> char" where
  "digit_char n = ''0123456789abcdef'' ! (n mod 16)"

function show_nat :: "nat \<Rightarrow> string" where
  "show_nat n =
     (if n < 10 then [digit_char n] else show_nat (n div 10) @ [digit_char (n mod 10)])"
  by pat_completeness auto
termination
  by (relation "measure id") auto

definition show_int :: "int \<Rightarrow> string" where
  "show_int i = (if i < 0 then CHR ''-'' # show_nat (nat (- i)) else show_nat (nat i))"

definition escape_char :: "char \<Rightarrow> string" where
  "escape_char c =
     (if c = CHR 0x22 then [CHR 0x5C, CHR 0x22]
      else if c = CHR 0x5C then [CHR 0x5C, CHR 0x5C]
      else if c = CHR 0x0A then [CHR 0x5C, CHR ''n'']
      else if c = CHR 0x0D then [CHR 0x5C, CHR ''r'']
      else if c = CHR 0x09 then [CHR 0x5C, CHR ''t'']
      else if c = CHR 0x08 then [CHR 0x5C, CHR ''b'']
      else if c = CHR 0x0C then [CHR 0x5C, CHR ''f'']
      else if (of_char c :: nat) < 32 \<or> (of_char c :: nat) > 126
      then [CHR 0x5C, CHR ''u'', CHR ''0'', CHR ''0'',
            digit_char (of_char c div 16), digit_char (of_char c mod 16)]
      else [c])"

definition quote :: "string \<Rightarrow> string" where
  "quote s = CHR 0x22 # concat (map escape_char s) @ [CHR 0x22]"

fun json_dumps :: "json \<Rightarrow> string"
  and dumps_items :: "json list \<Rightarrow> string"
  and dumps_members :: "(string \<times> json) list \<Rightarrow> string" where
  "json_dumps JNull = ''null''"
| "json_dumps (JBool b) = (if b then ''true'' else ''false'')"
| "json_dumps (JInt i) = show_int i"
| "json_dumps (JStr s) = quote s"
| "json_dumps (JList xs) = ''['' @ dumps_items xs @ '']''"
| "json_dumps (JObj kvs) = ''{'' @ dumps_members kvs @ ''}''"
| "dumps_items [] = []"
| "dumps_items [x] = json_dumps x"
| "dumps_items (x # y # ys) = json_dumps x @ '', '' @ dumps_items (y # ys)"
| "dumps_members [] = []"
| "dumps_members [(k, v)] = quote k @ '': '' @ json_dumps v"
| "dumps_members ((k, v) # m # ms) =
     quote k @ '': '' @ json_dumps v @ '', '' @ dumps_members (m # ms)"

text \<open>Collaborators that are never reached, or that fail.\<close>

definition no_history :: "json \<Rightarrow> error + json" where
  "no_history executionArn = Inl (StorageError ''execution history'')"

definition no_store :: "json \<Rightarrow> json \<Rightarrow> error + string option" where
  "no_store bucket key = Inl (StorageError ''object store'')"

text \<open>
  The scenario of the execution history, most recent event first: an activity scheduled
  for the resource \<^verbatim>\<open>X\<close>, whose previous event is the task state \<^verbatim>\<open>Validate\<close> being
  entered.
\<close>

definition history_validate :: json where
  "history_validate =
     JObj [(''events'', JList
       [JObj [(''id'', JInt 2), (''type'', JStr ''ActivityScheduled''),
              (''previousEventId'', JInt 1),
              (''activityScheduledEventDetails'', JObj [(''resource'', JStr ''X'')])],
        JObj [(''id'', JInt 1), (''type'', JStr ''TaskStateEntered''),
              (''stateEnteredEventDetails'', JObj [(''name'', JStr ''Validate'')])]])]"

text \<open>A local message whose task \<^verbatim>\<open>discover\<close> has a config without \<^verbatim>\<open>cumulus_message\<close>.\<close>

definition plain_config :: json where
  "plain_config = JObj [(''collection'', JStr ''{$.payload.name}'')]"

definition local_message :: json where
  "local_message =
     JObj [(''cumulus_meta'', JObj [(''message_source'', JStr ''local''),
                                     (''task'', JStr ''discover'')]),
           (''workflow_config'', JObj [(''discover'', plain_config)]),
           (''payload'', JObj [(''name'', JStr ''MOD09'')])]"

text \<open>A message that \<^verbatim>\<open>json.dumps\<close> turns into exactly 10000 characters.\<close>

definition message_at_limit :: json where
  "message_at_limit =
     JObj [(''cumulus_meta'', JObj []),
           (''ingest_meta'', JObj [(''message_bucket'', JStr ''b'')]),
           (''payload'', JStr (replicate 9925 CHR ''x''))]"

text \<open>Two outputs that write the same destination, and a task result for them.\<close>

definition two_outputs :: json where
  "two_outputs =
     JObj [(''outputs'', JList
       [JObj [(''source'', JStr ''{{$.a}}''), (''destination'', JStr ''{{$.payload.x}}'')],
        JObj [(''source'', JStr ''{{$.b}}''), (''destination'', JStr ''{{$.payload.x}}'')]])]"

definition task_result :: json where
  "task_result = JObj [(''a'', JInt 1), (''b'', JInt 2)]"

definition message_with_replace :: json where
  "message_with_replace =
     JObj [(''cumulus_meta'', JObj [(''message_source'', JStr ''local'')]),
           (''replace'', JObj [(''Bucket'', JStr ''b''), (''Key'', JStr ''k'')])]"

section \<open>Facts shared by the results\<close>

lemmas model_defs = bnd_def global_name_def module_globals_def py_in_def

lemma strip_final_newline_closed:
  "strip_final_newline (a # b # p @ [c, CHR ''}'']) = a # b # p @ [c, CHR ''}'']"
  by (simp add: strip_final_newline_def)

lemma search_arrayRegex_exact:
  "CHR 0x0A \<notin> set p \<Longrightarrow> search_arrayRegex (''{['' @ p @ '']}'')"
  using strip_final_newline_closed [of "CHR ''{''" "CHR ''[''" p "CHR '']''"]
  by (simp add: search_arrayRegex_def framed_def Let_def)

lemma search_valueRegex_array: "\<not> search_valueRegex (''{['' @ p @ '']}'')"
  using strip_final_newline_closed [of "CHR ''{''" "CHR ''[''" p "CHR '']''"]
  by (simp add: search_valueRegex_def framed_def Let_def)

lemma slice_2_array: "slice_2 (''{['' @ p @ '']}'') = p"
  by (simp add: slice_2_def)

text \<open>
  \<^verbatim>\<open>str.replace\<close> scans on after an occurrence it has replaced, and steps over a
  character where there is none.
\<close>

lemma replace_all_at_occurrence:
  "old \<noteq> [] \<Longrightarrow> replace_all old new (old @ rest) = new @ replace_all old new rest"
  by (cases old) simp_all

lemma replace_all_elsewhere:
  "old \<noteq> [] \<Longrightarrow> take (length old) (c # cs) \<noteq> old \<Longrightarrow>
   replace_all old new (c # cs) = c # replace_all old new cs"
  by simp

text \<open>Whatever the third form returns is a text: the result of \<^verbatim>\<open>str.replace\<close>.\<close>

lemma template_form_text:
  "template_form jp event str = Inr (Some r) \<Longrightarrow> \<exists>t. r = JStr t"
  by (auto simp: template_form_def bnd_def split: option.splits sum.splits list.splits
           elim: str_replace.elims)

text \<open>With at least one event delivered, the lookup table is never built.\<close>

lemma build_eventsById_first:
  "build_eventsById [] (e # es) = Inl (KeyError (JStr ''event''))"
  by (simp add: bnd_def)

lemma history_with_events_raises:
  "get_item h ''events'' = Inr (JList (e # es)) \<Longrightarrow>
   getTaskNameFromExecutionHistory h arn = Inl (KeyError (JStr ''event''))"
  by (simp add: getTaskNameFromExecutionHistory_def bnd_def)

text \<open>Neither \<^verbatim>\<open>__resolveConfigTemplates\<close> nor \<^verbatim>\<open>__resolveInput\<close> ever returns a value.\<close>

lemma resolveConfigTemplates_raises: "\<exists>e. resolveConfigTemplates event config = Inl e"
  by (simp add: resolveConfigTemplates_def bnd_def split: sum.splits)

lemma resolveInput_raises: "\<exists>e. resolveInput jp event config = Inl e"
  by (simp add: resolveInput_def get_payload_attr_def model_defs split: sum.splits)

text \<open>With an \<^verbatim>\<open>outputs\<close> entry in the message config, \<^verbatim>\<open>__assignOutputs\<close> raises.\<close>

lemma assignOutputs_outputs_raises:
  "py_in ''outputs'' messageConfig = Inr True \<Longrightarrow>
   \<exists>e. assignOutputs jp upd nestedResponse event messageConfig = Inl e"
  by (cases messageConfig)
     (auto simp: assignOutputs_def set_payload_attr_def bnd_def py_in_def split: sum.splits)

text \<open>
  \<^verbatim>\<open>storeRemoteResponse\<close> returns a message below the limit as it is, and returns nothing
  from the limit on.
\<close>

lemma storeRemoteResponse_below:
  "length (dumps event) < 10000 \<Longrightarrow> storeRemoteResponse dumps uuid s3_put event = Inr event"
  by (simp add: storeRemoteResponse_def MAX_NON_S3_PAYLOAD_SIZE_def Let_def)

lemma storeRemoteResponse_from_limit:
  "event \<noteq> JNull \<Longrightarrow> 10000 \<le> length (dumps event) \<Longrightarrow>
   \<exists>e. storeRemoteResponse dumps uuid s3_put event = Inl e"
  by (simp add: storeRemoteResponse_def MAX_NON_S3_PAYLOAD_SIZE_def Let_def model_defs
           split: sum.splits)

lemma escape_printable:
  "concat (map escape_char (replicate n CHR ''x'')) = replicate n CHR ''x''"
  by (induction n) (simp_all add: escape_char_def)

lemma length_message_at_limit: "length (json_dumps message_at_limit) = 10000"
  by (simp add: message_at_limit_def quote_def escape_printable escape_char_def)

section \<open>Results\<close>

subsection \<open>C1: the task of a scheduled resource\<close>

text \<open>
  C1. On a resource-scheduled event whose resource equals the given ARN, the matcher is
  to follow \<^verbatim>\<open>previousEventId\<close> through the id-to-event lookup and return the name of the
  task state entered there. On the history of the scenario (an activity scheduled for
  \<^verbatim>\<open>X\<close>, preceded by the task state \<^verbatim>\<open>Validate\<close>) the code returns no name: building
  the lookup raises \<^verbatim>\<open>KeyError('event')\<close> at the first event, because line 39 subscripts
  the empty table with the text \<^verbatim>\<open>'event'\<close> instead of storing under the event's id.
\<close>

theorem history_lookup_raises:
  "getTaskNameFromExecutionHistory history_validate (JStr ''X'') = Inl (KeyError (JStr ''event''))"
  by (simp add: getTaskNameFromExecutionHistory_def history_validate_def bnd_def)

subsection \<open>C2: the array form\<close>

text \<open>
  C2, as the code has it. For a template \<^verbatim>\<open>{[<path>]}\<close> whose path holds no line feed:
  when the path query matches at least one node, \<^verbatim>\<open>__resolvePathStr\<close> returns the list
  of all matched values in the order of the query; when it matches no node, the result
  is never a list (the code falls through to the embedded form, which raises or returns
  a text).
\<close>

theorem resolve_array_form:
  assumes "CHR 0x0A \<notin> set p" and "jp p event = Inr vs"
  shows "(vs \<noteq> [] \<longrightarrow> resolvePathStr jp event (''{['' @ p @ '']}'') = Inr (JList vs))
       \<and> (vs = [] \<longrightarrow> (\<forall>l. resolvePathStr jp event (''{['' @ p @ '']}'') \<noteq> Inr (JList l)))"
proof -
  define str where "str = ''{['' @ p @ '']}''"
  have v: "value_form jp event str = Inr None"
    using search_valueRegex_array [of p] by (simp add: value_form_def str_def)
  have a: "array_form jp event str = (if vs \<noteq> [] then Inr (Some (JList vs)) else Inr None)"
    using search_arrayRegex_exact [OF assms(1)] slice_2_array [of p] assms(2)
    by (simp add: array_form_def bnd_def str_def)
  have some: "vs \<noteq> [] \<longrightarrow> resolvePathStr jp event str = Inr (JList vs)"
    by (simp add: resolvePathStr_def v a bnd_def)
  have none: "vs = [] \<longrightarrow> (\<forall>l. resolvePathStr jp event str \<noteq> Inr (JList l))"
  proof (intro impI allI notI)
    fix l
    assume e: "vs = []" and r: "resolvePathStr jp event str = Inr (JList l)"
    from r e have "template_form jp event str = Inr (Some (JList l))"
      by (simp add: resolvePathStr_def v a bnd_def split: sum.splits option.splits)
    then show False
      using template_form_text by blast
  qed
  from some none show ?thesis
    unfolding str_def ..
qed

text \<open>
  C2, witness: on \<^verbatim>\<open>{"a": 1}\<close> the template \<^verbatim>\<open>{[$.a]}\<close> gives the list of the one
  match; on the empty message, where the query matches nothing, the result is not the
  empty list.
\<close>

theorem resolve_array_form_witness:
  "CHR 0x0A \<notin> set ''$.a''
   \<and> jsonpath_fields ''$.a'' (JObj [(''a'', JInt 1)]) = Inr [JInt 1]
   \<and> resolvePathStr jsonpath_fields (JObj [(''a'', JInt 1)]) ''{[$.a]}'' = Inr (JList [JInt 1])
   \<and> jsonpath_fields ''$.a'' (JObj []) = Inr []
   \<and> resolvePathStr jsonpath_fields (JObj []) ''{[$.a]}'' \<noteq> Inr (JList [])"
proof -
  have nl: "CHR 0x0A \<notin> set ''$.a''" by simp
  have q1: "jsonpath_fields ''$.a'' (JObj [(''a'', JInt 1)]) = Inr [JInt 1]" by code_simp
  have q0: "jsonpath_fields ''$.a'' (JObj []) = Inr []" by code_simp
  from resolve_array_form [of "''$.a''" jsonpath_fields "JObj [(''a'', JInt 1)]" "[JInt 1]", OF nl q1]
    resolve_array_form [of "''$.a''" jsonpath_fields "JObj []" "[]", OF nl q0] nl q1 q0
  show ?thesis by simp
qed

text \<open>
  C2, as stated, fails: on the empty message the query \<^verbatim>\<open>$.a\<close> matches no node, and
  resolving \<^verbatim>\<open>{[$.a]}\<close> raises instead of returning the empty list.
\<close>

theorem array_form_no_match_counterexample:
  "jsonpath_fields ''$.a'' (JObj []) = Inr []
   \<and> resolvePathStr jsonpath_fields (JObj []) ''{[$.a]}'' = Inl (JsonPathError ''[$.a]'')"
  by code_simp

subsection \<open>C3: the embedded form\<close>

text \<open>
  C3, as the code has it. For a text that is neither of the two exact forms and whose
  first \<^verbatim>\<open>{<path>}\<close> template has a query whose first match is a text value,
  \<^verbatim>\<open>__resolvePathStr\<close> returns the text with every occurrence of that template's text
  replaced by the value (\<open>replace_all\<close>, see \<open>replace_all_at_occurrence\<close>).
\<close>

theorem resolve_embedded_template:
  assumes "\<not> search_valueRegex str" and "\<not> search_arrayRegex str"
    and "search_templateRegex str = Some g"
    and "jp (strip_braces g) event = Inr (JStr v # vs)"
  shows "resolvePathStr jp event str = Inr (JStr (replace_all g v str))"
  using assms
  by (simp add: resolvePathStr_def value_form_def array_form_def template_form_def bnd_def)

text \<open>C3, witness: \<^verbatim>\<open>id-{$.a}\<close> on \<^verbatim>\<open>{"a": "v"}\<close> becomes \<^verbatim>\<open>id-v\<close>.\<close>

theorem resolve_embedded_template_witness:
  "\<not> search_valueRegex ''id-{$.a}'' \<and> \<not> search_arrayRegex ''id-{$.a}''
   \<and> search_templateRegex ''id-{$.a}'' = Some ''{$.a}''
   \<and> jsonpath_fields (strip_braces ''{$.a}'') (JObj [(''a'', JStr ''v'')]) = Inr [JStr ''v'']
   \<and> resolvePathStr jsonpath_fields (JObj [(''a'', JStr ''v'')]) ''id-{$.a}'' = Inr (JStr ''id-v'')"
proof -
  have h1: "\<not> search_valueRegex ''id-{$.a}''" by code_simp
  have h2: "\<not> search_arrayRegex ''id-{$.a}''" by code_simp
  have h3: "search_templateRegex ''id-{$.a}'' = Some ''{$.a}''" by code_simp
  have h4: "jsonpath_fields (strip_braces ''{$.a}'') (JObj [(''a'', JStr ''v'')]) = Inr [JStr ''v'']"
    by code_simp
  have r: "replace_all ''{$.a}'' ''v'' ''id-{$.a}'' = ''id-v''" by code_simp
  from resolve_embedded_template [of "''id-{$.a}''" "''{$.a}''" jsonpath_fields
      "JObj [(''a'', JStr ''v'')]" "''v''" "[]", OF h1 h2 h3 h4] h1 h2 h3 h4 r
  show ?thesis by simp
qed

text \<open>
  C3, as stated, fails: in \<^verbatim>\<open>{$.a}-{$.a}\<close> the second occurrence of the template is
  replaced as well, where the claim leaves it as \<^verbatim>\<open>v-{$.a}\<close>.
\<close>

theorem embedded_template_counterexample:
  "resolvePathStr jsonpath_fields (JObj [(''a'', JStr ''v'')]) ''{$.a}-{$.a}'' = Inr (JStr ''v-v'')
   \<and> resolvePathStr jsonpath_fields (JObj [(''a'', JStr ''v'')]) ''{$.a}-{$.a}''
       \<noteq> Inr (JStr ''v-{$.a}'')"
  by code_simp

subsection \<open>C4 and C5: the envelope of a config without \<^verbatim>\<open>cumulus_message\<close>\<close>

text \<open>
  C4. For a config without \<^verbatim>\<open>cumulus_message\<close> the envelope is to be built, with an
  empty \<^verbatim>\<open>messageConfig\<close>. On the local message and its config \<^verbatim>\<open>{"collection":
  "{$.payload.name}"}\<close> the code builds nothing: \<^verbatim>\<open>__resolveConfigTemplates\<close> raises
  \<^verbatim>\<open>KeyError('cumulus_message')\<close> at the unguarded \<^verbatim>\<open>del\<close> of line 228, and
  \<^verbatim>\<open>loadNestedEvent\<close> stops at its first statement, whose callee
  \<^verbatim>\<open>_message__loadConfig\<close> is not a name of the module.
\<close>

theorem config_without_cumulus_message_raises:
  "resolveConfigTemplates local_message plain_config = Inl (KeyError (JStr ''cumulus_message''))
   \<and> loadNestedEvent jp history local_message context = Inl (NameError ''_message__loadConfig'')"
  by (simp add: resolveConfigTemplates_def plain_config_def loadNestedEvent_def model_defs)

text \<open>
  C5. Without an input template the input is to be the message's payload. On the local
  message and its config the code raises \<^verbatim>\<open>AttributeError\<close>: line 244 reads the
  attribute \<^verbatim>\<open>event.payload\<close> of a dict instead of the item \<^verbatim>\<open>event['payload']\<close>.
\<close>

theorem input_without_template_raises:
  "resolveInput jp local_message plain_config = Inl (AttributeError ''payload'')"
  by (simp add: resolveInput_def plain_config_def get_payload_attr_def model_defs)

subsection \<open>C6: the size limit\<close>

text \<open>
  C6. A message of exactly 10000 bytes is to come back unchanged. The message
  \<open>message_at_limit\<close> serialises to exactly 10000 characters, and the code does not
  return it: the test of line 301 is \<^verbatim>\<open>roughDataSize < 10000\<close>, so the message takes the
  offload path, which raises \<^verbatim>\<open>NameError\<close> at \<^verbatim>\<open>timedelta\<close> on line 309.
\<close>

theorem message_at_limit_not_returned:
  "length (json_dumps message_at_limit) = 10000
   \<and> storeRemoteResponse json_dumps uuid s3_put message_at_limit = Inl (NameError ''timedelta'')"
  unfolding storeRemoteResponse_def length_message_at_limit Let_def
  by (simp add: message_at_limit_def MAX_NON_S3_PAYLOAD_SIZE_def model_defs)

subsection \<open>C7: two outputs for one destination\<close>

text \<open>
  C7. With two outputs writing the same destination, the later write is to be in the
  final message. On the task result \<^verbatim>\<open>{"a": 1, "b": 2}\<close> and the two outputs to
  \<^verbatim>\<open>$.payload.x\<close> the code writes nothing: line 278 assigns the attribute
  \<^verbatim>\<open>result.payload\<close> of a dict and raises \<^verbatim>\<open>AttributeError\<close> before the loop.
\<close>

theorem outputs_mapping_raises:
  "assignOutputs jp upd task_result local_message two_outputs = Inl (AttributeError ''payload'')"
  by (simp add: assignOutputs_def local_message_def two_outputs_def set_payload_attr_def
        model_defs)

subsection \<open>C8: an unknown message source\<close>

text \<open>
  C8, as the code has it. For every message whose \<^verbatim>\<open>cumulus_meta.message_source\<close> is a
  text other than \<^verbatim>\<open>local\<close> and \<^verbatim>\<open>sfn\<close>, \<^verbatim>\<open>__loadConfig\<close> raises \<^verbatim>\<open>LookupError\<close> with
  the message \<^verbatim>\<open>Unknown event source: \<close> followed by that text.
\<close>

theorem unknown_text_source:
  assumes "get_item event ''cumulus_meta'' = Inr meta"
    and "get_item meta ''message_source'' = Inr (JStr source)"
    and "source \<noteq> ''local''" and "source \<noteq> ''sfn''"
  shows "loadConfig history event context
           = Inl (LookupError (''Unknown event source: '' @ source))"
  using assms by (simp add: loadConfig_def bnd_def)

text \<open>C8, witness: the source \<^verbatim>\<open>cloudwatch\<close>.\<close>

theorem unknown_text_source_witness:
  "get_item (JObj [(''cumulus_meta'', JObj [(''message_source'', JStr ''cloudwatch'')])])
       ''cumulus_meta'' = Inr (JObj [(''message_source'', JStr ''cloudwatch'')])
   \<and> get_item (JObj [(''message_source'', JStr ''cloudwatch'')]) ''message_source''
       = Inr (JStr ''cloudwatch'')
   \<and> ''cloudwatch'' \<noteq> ''local'' \<and> ''cloudwatch'' \<noteq> ''sfn''
   \<and> loadConfig no_history
        (JObj [(''cumulus_meta'', JObj [(''message_source'', JStr ''cloudwatch'')])]) (JObj [])
       = Inl (LookupError ''Unknown event source: cloudwatch'')"
proof -
  have h1: "get_item (JObj [(''cumulus_meta'', JObj [(''message_source'', JStr ''cloudwatch'')])])
       ''cumulus_meta'' = Inr (JObj [(''message_source'', JStr ''cloudwatch'')])" by simp
  have h2: "get_item (JObj [(''message_source'', JStr ''cloudwatch'')]) ''message_source''
       = Inr (JStr ''cloudwatch'')" by simp
  have h3: "''cloudwatch'' \<noteq> ''local''" by simp
  have h4: "''cloudwatch'' \<noteq> ''sfn''" by simp
  from unknown_text_source [OF h1 h2 h3 h4, of no_history "JObj []"] h1 h2 h3 h4
  show ?thesis by simp
qed

text \<open>
  C8, as stated, fails: a message source that is the number 5 is neither \<^verbatim>\<open>local\<close> nor
  \<^verbatim>\<open>sfn\<close>, and the error is the \<^verbatim>\<open>TypeError\<close> of \<^verbatim>\<open>'Unknown event source: ' + 5\<close>,
  which is not of the \<^verbatim>\<open>LookupError\<close> class and names nothing.
\<close>

theorem unknown_source_number_counterexample:
  "loadConfig no_history (JObj [(''cumulus_meta'', JObj [(''message_source'', JInt 5)])])
     (JObj []) = Inl TypeError
   \<and> \<not> is_LookupError TypeError"
  by (simp add: loadConfig_def model_defs)

subsection \<open>C9: a message without \<^verbatim>\<open>replace\<close>\<close>

text \<open>
  C9. For every message without a \<^verbatim>\<open>replace\<close> field, \<^verbatim>\<open>loadRemoteEvent\<close> returns the
  message unchanged, whatever the object store would do; so loading the result again
  gives the same result.
\<close>

theorem loadRemoteEvent_without_replace:
  assumes "''replace'' \<notin> fst ` set fields"
  shows "loadRemoteEvent s3_get (JObj fields) = Inr (JObj fields)
       \<and> bnd (loadRemoteEvent s3_get (JObj fields)) (loadRemoteEvent s3_get)
           = loadRemoteEvent s3_get (JObj fields)"
  using assms by (simp add: loadRemoteEvent_def bnd_def py_in_def)

text \<open>C9, witness: the local message, with an object store that fails when asked.\<close>

theorem loadRemoteEvent_without_replace_witness:
  "''replace'' \<notin> fst ` set [(''cumulus_meta'', JObj []), (''payload'', JInt 1)]
   \<and> loadRemoteEvent no_store (JObj [(''cumulus_meta'', JObj []), (''payload'', JInt 1)])
       = Inr (JObj [(''cumulus_meta'', JObj []), (''payload'', JInt 1)])
   \<and> bnd (loadRemoteEvent no_store (JObj [(''cumulus_meta'', JObj []), (''payload'', JInt 1)]))
         (loadRemoteEvent no_store)
       = loadRemoteEvent no_store (JObj [(''cumulus_meta'', JObj []), (''payload'', JInt 1)])"
proof -
  have h: "''replace'' \<notin> fst ` set [(''cumulus_meta'', JObj []), (''payload'', JInt 1)]"
    by simp
  from loadRemoteEvent_without_replace [OF h, of no_store] h
  show ?thesis by blast
qed

subsection \<open>C10: the next event\<close>

text \<open>
  C10. When \<^verbatim>\<open>replace\<close> is present, \<^verbatim>\<open>createNextEvent\<close> is to remove it and set
  \<^verbatim>\<open>exception\<close> to the text \<^verbatim>\<open>None\<close> before the size check. On a message that carries
  \<^verbatim>\<open>replace\<close>, with an \<^verbatim>\<open>outputs\<close> list in the message config, the code does neither:
  its first statement calls \<^verbatim>\<open>__assignOutputs\<close> as a bare name, which is compiled as
  \<^verbatim>\<open>_message__assignOutputs\<close> and bound nowhere. (Called as a method, \<^verbatim>\<open>__assignOutputs\<close>
  raises on this input as well: \<open>assignOutputs_outputs_raises\<close>.)
\<close>

theorem createNextEvent_raises:
  "createNextEvent jp upd dumps uuid s3_put (JObj []) message_with_replace
     (JObj [(''outputs'', JList [])]) = Inl (NameError ''_message__assignOutputs'')"
  by (simp add: createNextEvent_def model_defs)

end
